theory Spec2Isabelle
  imports Complex_Main "HOL-Library.Sublist"
begin


section \<open>Data model (types.ts)\<close>

text \<open>
  JavaScript numbers are modelled as follows: counters, retry budgets and delays in
  milliseconds are natural numbers, the integer fields of the analysis schema are
  integers, and coordinates and time stamps are real numbers (the finite doubles that
  JSON and the frame clock deliver).  The numbers that the animation computes have a
  type of their own, introduced with it.  An optional or nullable field is an
  \<open>option\<close>.  Strings are lists of characters; the patterns the code searches for are
  ASCII.
\<close>

datatype VehicleType = CAR | LKW_LIGHT | LKW_HEAVY

record Coordinates =
  lat :: real
  lng :: real

record OsmStreetDetails =
  osm_name :: string
  osm_type :: string
  osm_width :: "string option"
  osm_lanes :: "string option"
  osm_maxspeed :: "string option"
  osm_surface :: "string option"

record StreetAnalysis =
  streetName :: string
  isTruckSuitable :: bool
  restrictionReason :: "string option"
  maxWeight :: "string option"
  streetWidth :: "string option"
  lanes :: "string option"
  congestionScore :: int
  congestionCurve :: "int list"
  rushHourTimes :: "string list"
  description :: string
  alternativeRoutes :: "string list option"
  lastUpdated :: string

text \<open>
  The object that \<open>JSON.parse\<close> yields for a street analysis, typed in the source as
  \<open>Omit<StreetAnalysis, 'lastUpdated'>\<close>.  The fields the response schema requires are
  present; the others may be missing.  \<open>congestionCurve\<close> is required by the schema, but
  the merge reads it with \<open>?.\<close>, so the model lets it be missing too.
\<close>

record GeneratedAnalysis =
  g_streetName :: string
  g_isTruckSuitable :: bool
  g_restrictionReason :: "string option"
  g_maxWeight :: "string option"
  g_streetWidth :: "string option"
  g_lanes :: "string option"
  g_congestionScore :: int
  g_congestionCurve :: "int list option"
  g_rushHourTimes :: "string list"
  g_description :: string
  g_alternativeRoutes :: "string list option"

section \<open>Thrown values and their classification (geminiService.ts)\<close>

text \<open>
  An error object as the handlers read it: \<open>error.status\<close>, \<open>error.code\<close> and
  \<open>error.message\<close>, each possibly undefined.
\<close>

record ErrorObject =
  err_status :: "int option"
  err_code :: "int option"
  err_message :: "string option"

text \<open>
  A thrown value is an error object or \<open>undefined\<close> (the initial value of
  \<open>lastError\<close> in \<open>retryGeminiCall\<close>).
\<close>

datatype thrown = Undefined | Thrown ErrorObject

definition newError :: "string \<Rightarrow> ErrorObject" where
  "newError msg = \<lparr>err_status = None, err_code = None, err_message = Some msg\<rparr>"

text \<open>\<open>String.prototype.includes\<close>: the pattern occurs as a contiguous run.\<close>

fun str_includes :: "string \<Rightarrow> string \<Rightarrow> bool" where
  "str_includes [] pat = (pat = [])"
| "str_includes (c # cs) pat = (prefix pat (c # cs) \<or> str_includes cs pat)"

text \<open>\<open>error.message?.includes(pat)\<close>: undefined, hence falsy, without a message.\<close>

definition messageIncludes :: "ErrorObject \<Rightarrow> string \<Rightarrow> bool" where
  "messageIncludes e pat = (case err_message e of None \<Rightarrow> False | Some m \<Rightarrow> str_includes m pat)"

definition isRateLimit :: "ErrorObject \<Rightarrow> bool" where
  "isRateLimit e =
     (err_status e = Some 429 \<or> err_code e = Some 429 \<or> messageIncludes e ''429''
      \<or> messageIncludes e ''quota'' \<or> messageIncludes e ''RESOURCE_EXHAUSTED'')"

section \<open>The retry wrapper \<open>retryGeminiCall\<close>\<close>

text \<open>
  The remote operation is an oracle: \<open>operation k\<close> is the outcome of its \<open>k\<close>-th
  invocation (counted from 0), a rejection with an error object or a value.  Every
  iteration of the loop invokes the operation once, so the invocation made at
  \<open>attempt\<close> is number \<open>attempt\<close>.  The wrapper's observable effects are logged: each
  invocation and each \<open>setTimeout\<close> delay it waits for.  The policy is a pair of natural
  numbers, as at both call sites (4 and 2500 by default, 2 and 2000 for the weather).
  \<open>lastError\<close> starts undefined and holds the latest error from then on.
\<close>

datatype event = Attempt nat | Wait nat

function retryLoop ::
  "(nat \<Rightarrow> ErrorObject + 'a) \<Rightarrow> nat \<Rightarrow> nat \<Rightarrow> nat \<Rightarrow> thrown \<Rightarrow> event list
     \<Rightarrow> (thrown + 'a) \<times> event list" where
  "retryLoop operation maxRetries baseDelay attempt lastError trace =
     (if attempt \<le> maxRetries then
        (case operation attempt of
           Inr v \<Rightarrow> (Inr v, trace @ [Attempt attempt])
         | Inl error \<Rightarrow>
             if isRateLimit error \<and> attempt < maxRetries then
               retryLoop operation maxRetries baseDelay (attempt + 1) (Thrown error)
                 (trace @ [Attempt attempt, Wait (baseDelay * 2 ^ attempt)])
             else (Inl (Thrown error), trace @ [Attempt attempt]))
      else (Inl lastError, trace))"
  by pat_completeness auto
termination
  by (relation "measure (\<lambda>(operation, maxRetries, baseDelay, attempt, lastError, trace).
        Suc maxRetries - attempt)") auto

definition retryGeminiCall ::
  "(nat \<Rightarrow> ErrorObject + 'a) \<Rightarrow> nat \<Rightarrow> nat \<Rightarrow> (thrown + 'a) \<times> event list" where
  "retryGeminiCall operation maxRetries baseDelay =
     retryLoop operation maxRetries baseDelay 0 Undefined []"

text \<open>Counts the invocations recorded in a trace.\<close>

fun attemptsMade :: "event list \<Rightarrow> nat" where
  "attemptsMade [] = 0"
| "attemptsMade (Attempt i # evs) = Suc (attemptsMade evs)"
| "attemptsMade (Wait d # evs) = attemptsMade evs"

text \<open>
  Two abbreviations used to describe a run of the wrapper: the outcome of an invocation
  as the wrapper passes it on, and the trace of the invocations \<open>a, \<dots>, n - 1\<close> that
  were each followed by their back-off delay.
\<close>

definition rethrow :: "ErrorObject + 'a \<Rightarrow> thrown + 'a" where
  "rethrow r = (case r of Inl e \<Rightarrow> Inl (Thrown e) | Inr v \<Rightarrow> Inr v)"

definition backoff :: "nat \<Rightarrow> nat \<Rightarrow> nat \<Rightarrow> event list" where
  "backoff baseDelay a n = concat (map (\<lambda>i. [Attempt i, Wait (baseDelay * 2 ^ i)]) [a..<n])"

section \<open>Street analysis \<open>analyzeStreetConditions\<close>\<close>

text \<open>JavaScript truthiness of an optional string: defined and not empty.\<close>

definition truthy :: "string option \<Rightarrow> bool" where
  "truthy s = (case s of None \<Rightarrow> False | Some v \<Rightarrow> v \<noteq> [])"

text \<open>
  The prompt, reduced to the data interpolated into its template: the vehicle type, the
  coordinates and, when OSM data is given, the four lines of verified physical data.
  The template's fixed wording (among it the instruction to mark \<open>isTruckSuitable\<close>
  false for \<open>LKW_HEAVY\<close> when the width is below 3.5m) is the same in every prompt.
\<close>

record StreetPrompt =
  p_vehicleType :: VehicleType
  p_lat :: real
  p_lng :: real
  p_physicalContext :: "(string \<times> string \<times> string \<times> string) option"

definition physicalContext ::
  "OsmStreetDetails option \<Rightarrow> (string \<times> string \<times> string \<times> string) option" where
  "physicalContext osmData =
     (case osmData of
        None \<Rightarrow> None
      | Some d \<Rightarrow>
          Some (osm_name d, osm_type d,
            (case osm_width d of
               Some w \<Rightarrow> if w \<noteq> [] then w @ '' meters'' else ''Not specified''
             | None \<Rightarrow> ''Not specified''),
            (case osm_lanes d of
               Some l \<Rightarrow> if l \<noteq> [] then l else ''Not specified''
             | None \<Rightarrow> ''Not specified'')))"

definition streetPrompt ::
  "real \<Rightarrow> real \<Rightarrow> VehicleType \<Rightarrow> OsmStreetDetails option \<Rightarrow> StreetPrompt" where
  "streetPrompt lt lg vehicleType osmData =
     \<lparr>p_vehicleType = vehicleType, p_lat = lt, p_lng = lg,
      p_physicalContext = physicalContext osmData\<rparr>"

record GenerateContentResponse =
  resp_text :: "string option"

text \<open>\<open>osmData?.width ? `${osmData.width}m` : undefined\<close>\<close>

definition osmWidthLabel :: "OsmStreetDetails option \<Rightarrow> string option" where
  "osmWidthLabel osmData =
     (case osmData of
        None \<Rightarrow> None
      | Some d \<Rightarrow>
          (case osm_width d of
             Some w \<Rightarrow> if w \<noteq> [] then Some (w @ ''m'') else None
           | None \<Rightarrow> None))"

text \<open>\<open>osmData?.lanes\<close>\<close>

definition osmLanes :: "OsmStreetDetails option \<Rightarrow> string option" where
  "osmLanes osmData = (case osmData of None \<Rightarrow> None | Some d \<Rightarrow> osm_lanes d)"

text \<open>\<open>osmData?.name || fallback\<close>\<close>

definition osmNameOr :: "OsmStreetDetails option \<Rightarrow> string \<Rightarrow> string" where
  "osmNameOr osmData fallback =
     (case osmData of
        None \<Rightarrow> fallback
      | Some d \<Rightarrow> if osm_name d \<noteq> [] then osm_name d else fallback)"

text \<open>
  The first half of the \<open>try\<close> block: the generative call under the retry wrapper with
  the default policy (4 retries, 2500 ms), the check of \<open>response.text\<close> and
  \<open>JSON.parse\<close>.  \<open>generateContent\<close> is the remote oracle, \<open>jsonParse\<close> the parser; both
  are parameters.  A text that cannot be read as an analysis object (a syntax error, or
  \<open>null\<close>, whose fields the merge cannot read) counts as an error of the parser.
\<close>

definition requestAnalysis ::
  "(StreetPrompt \<Rightarrow> nat \<Rightarrow> ErrorObject + GenerateContentResponse)
     \<Rightarrow> (string \<Rightarrow> ErrorObject + GeneratedAnalysis)
     \<Rightarrow> real \<Rightarrow> real \<Rightarrow> VehicleType \<Rightarrow> OsmStreetDetails option
     \<Rightarrow> thrown + GeneratedAnalysis" where
  "requestAnalysis generateContent jsonParse lt lg vehicleType osmData =
     (case fst (retryGeminiCall (generateContent (streetPrompt lt lg vehicleType osmData)) 4 2500) of
        Inl e \<Rightarrow> Inl e
      | Inr response \<Rightarrow>
          if \<not> truthy (resp_text response) then Inl (Thrown (newError ''No response from Gemini''))
          else
            (case jsonParse (case resp_text response of Some t \<Rightarrow> t | None \<Rightarrow> []) of
               Inl e \<Rightarrow> Inl (Thrown e)
             | Inr data \<Rightarrow> Inr data))"

text \<open>The second half of the \<open>try\<close> block: the object returned on success.\<close>

definition mergeAnalysis ::
  "GeneratedAnalysis \<Rightarrow> OsmStreetDetails option \<Rightarrow> string \<Rightarrow> StreetAnalysis" where
  "mergeAnalysis data osmData now =
     \<lparr>streetName = g_streetName data,
      isTruckSuitable = g_isTruckSuitable data,
      restrictionReason = g_restrictionReason data,
      maxWeight = g_maxWeight data,
      streetWidth = (if truthy (g_streetWidth data) then g_streetWidth data
                     else osmWidthLabel osmData),
      lanes = osmLanes osmData,
      congestionScore = g_congestionScore data,
      congestionCurve =
        (case g_congestionCurve data of
           Some curve \<Rightarrow> if length curve = 12 then curve else [2,2,3,7,9,6,5,8,9,5,3,2]
         | None \<Rightarrow> [2,2,3,7,9,6,5,8,9,5,3,2]),
      rushHourTimes = g_rushHourTimes data,
      description = g_description data,
      alternativeRoutes = g_alternativeRoutes data,
      lastUpdated = now\<rparr>"

text \<open>The object returned by the \<open>catch\<close> block when the error is a rate limit.\<close>

definition rateLimitedFallback :: "OsmStreetDetails option \<Rightarrow> string \<Rightarrow> StreetAnalysis" where
  "rateLimitedFallback osmData now =
     \<lparr>streetName = osmNameOr osmData ''Service Busy (High Traffic)'',
      isTruckSuitable = True,
      restrictionReason = Some ''AI Analysis unavailable. Check local signs.'',
      maxWeight = None,
      streetWidth = (case osmWidthLabel osmData of Some w \<Rightarrow> Some w | None \<Rightarrow> Some ''Unknown''),
      lanes = osmLanes osmData,
      congestionScore = 5,
      congestionCurve = [2,2,2,5,5,5,5,5,5,5,2,2],
      rushHourTimes = [''Unknown''],
      description = ''The AI analysis service is currently experiencing high demand. Please rely on standard physical street data and local signage. This street has not been fully verified for logistical constraints at this moment.'',
      alternativeRoutes = Some [],
      lastUpdated = now\<rparr>"

text \<open>The object returned by the \<open>catch\<close> block for every other error.\<close>

definition failedFallback :: "OsmStreetDetails option \<Rightarrow> string \<Rightarrow> StreetAnalysis" where
  "failedFallback osmData now =
     \<lparr>streetName = osmNameOr osmData ''Analysis Failed'',
      isTruckSuitable = False,
      restrictionReason = None,
      maxWeight = None,
      streetWidth = None,
      lanes = None,
      congestionScore = 0,
      congestionCurve = [0,0,0,0,0,0,0,0,0,0,0,0],
      rushHourTimes = [],
      description = ''Could not retrieve data from AI service. Please check API key configuration.'',
      alternativeRoutes = Some [],
      lastUpdated = now\<rparr>"

text \<open>
  \<open>analyzeStreetConditions\<close>.  \<open>now\<close> is the clock reading
  \<open>new Date().toLocaleTimeString()\<close>.  The \<open>catch\<close> block reads \<open>error.status\<close> first;
  on \<open>undefined\<close> that read raises a \<open>TypeError\<close>, which leaves the function.
\<close>

definition analyzeStreetConditions ::
  "(StreetPrompt \<Rightarrow> nat \<Rightarrow> ErrorObject + GenerateContentResponse)
     \<Rightarrow> (string \<Rightarrow> ErrorObject + GeneratedAnalysis) \<Rightarrow> string
     \<Rightarrow> real \<Rightarrow> real \<Rightarrow> VehicleType \<Rightarrow> OsmStreetDetails option
     \<Rightarrow> thrown + StreetAnalysis" where
  "analyzeStreetConditions generateContent jsonParse now lt lg vehicleType osmData =
     (case requestAnalysis generateContent jsonParse lt lg vehicleType osmData of
        Inr data \<Rightarrow> Inr (mergeAnalysis data osmData now)
      | Inl Undefined \<Rightarrow> Inl (Thrown (newError ''TypeError: Cannot read properties of undefined''))
      | Inl (Thrown e) \<Rightarrow>
          if isRateLimit e then Inr (rateLimitedFallback osmData now)
          else Inr (failedFallback osmData now))"

section \<open>Route computation \<open>calculateRoute\<close> (routingService.ts)\<close>

text \<open>
  The OSRM response as the function reads it: \<open>data.code\<close>, \<open>data.routes\<close> (possibly
  missing), and of a route its GeoJSON coordinates (pairs \<open>[lng, lat]\<close>), the names of
  the steps of each leg (possibly missing), its duration and its distance.
\<close>

record OsrmRoute =
  rt_coordinates :: "(real \<times> real) list"
  rt_legs :: "string option list list"
  rt_duration :: real
  rt_distance :: real

record OsrmData =
  osrm_code :: string
  osrm_routes :: "OsrmRoute list option"

record HttpResponse =
  http_ok :: bool
  http_statusText :: string
  http_json :: "ErrorObject + OsrmData"

record RouteResult =
  geometry :: "(real \<times> real) list"
  coordinates :: "(real \<times> real) list"
  streetNames :: "string list"
  duration :: real
  distance :: real

text \<open>
  \<open>streetNames.add(step.name)\<close> under the guard \<open>step.name && step.name.length > 0\<close>.
  A JavaScript \<open>Set\<close> keeps the order of first insertion.
\<close>

definition addStepName :: "string list \<Rightarrow> string option \<Rightarrow> string list" where
  "addStepName names stepName =
     (case stepName of
        None \<Rightarrow> names
      | Some n \<Rightarrow> if n \<noteq> [] \<and> n \<notin> set names then names @ [n] else names)"

definition collectStreetNames :: "string option list list \<Rightarrow> string list" where
  "collectStreetNames legs = foldl (\<lambda>names leg. foldl addStepName names leg) [] legs"

text \<open>
  \<open>calculateRoute\<close>.  The routing backend is the oracle \<open>fetch\<close>, applied to the
  waypoints in the order \<open>lng,lat\<close> in which the URL lists them; it rejects or yields a
  response.  The second component of the result lists the requests issued.
\<close>

definition calculateRoute ::
  "((real \<times> real) list \<Rightarrow> ErrorObject + HttpResponse) \<Rightarrow> Coordinates list
     \<Rightarrow> (thrown + RouteResult) \<times> (real \<times> real) list list" where
  "calculateRoute fetch points =
     (if length points < 2 then
        (Inl (Thrown (newError ''At least two points are required for a route.'')), [])
      else
        (let coordString = map (\<lambda>p. (lng p, lat p)) points in
         ((case fetch coordString of
             Inl e \<Rightarrow> Inl (Thrown e)
           | Inr response \<Rightarrow>
               if \<not> http_ok response then
                 Inl (Thrown (newError (''Routing service error: '' @ http_statusText response)))
               else
                 (case http_json response of
                    Inl e \<Rightarrow> Inl (Thrown e)
                  | Inr data \<Rightarrow>
                      if osrm_code data \<noteq> ''Ok'' \<or> osrm_routes data = None
                         \<or> osrm_routes data = Some []
                      then Inl (Thrown (newError ''No route found.''))
                      else
                        (case osrm_routes data of
                           Some (route # others) \<Rightarrow>
                             Inr \<lparr>geometry = rt_coordinates route,
                                  coordinates = map (\<lambda>coord. (snd coord, fst coord))
                                                  (rt_coordinates route),
                                  streetNames = collectStreetNames (rt_legs route),
                                  duration = rt_duration route,
                                  distance = rt_distance route\<rparr>
                         | _ \<Rightarrow> Inl (Thrown (newError ''No route found.''))))),
          [coordString])))"

section \<open>Session state and its handlers (App.tsx)\<close>

datatype Mode = Explore | Route

datatype MarkerType = Hotspot | UserSelected | RoutePoint

record MapMarkerData =
  m_id :: string
  m_position :: Coordinates
  m_name :: string
  m_type :: MarkerType
  m_index :: "nat option"

record RouteAnalysis =
  suitabilityScore :: int
  isRouteSuitable :: bool
  majorWarnings :: "string list"
  trafficPrediction :: string
  problematicStreets :: "string list"
  estimatedDurationAdjustment :: string

record LiveTrafficData =
  summary :: string
  lt_lastUpdated :: string
  sources :: "(string \<times> string) list"

record WeatherData =
  temp :: string
  condition :: string
  impact :: string
  isSevere :: bool

text \<open>The \<open>useState\<close> cells of \<open>App\<close>, in the order of their declaration.\<close>

record AppState =
  selectedVehicle :: VehicleType
  mode :: Mode
  analysis :: "StreetAnalysis option"
  highlightedSegments :: "Coordinates list list"
  isHighlightSuitable :: bool
  routePoints :: "Coordinates list"
  routeCoordinates :: "(real \<times> real) list"
  routeAnalysis :: "RouteAnalysis option"
  routeStreetNames :: "string list"
  loading :: bool
  liveTraffic :: "LiveTrafficData option"
  weather :: "WeatherData option"
  markers :: "MapMarkerData list"
  error :: "string option"

text \<open>Decimal rendering of a number inside a template string.\<close>

fun showNat :: "nat \<Rightarrow> string" where
  "showNat n = (if n < 10 then [''0123456789'' ! n]
                else showNat (n div 10) @ [''0123456789'' ! (n mod 10)])"

declare showNat.simps [simp del]

text \<open>
  What \<open>useCallback\<close> captures for \<open>handleLocationSelect\<close> (the dependencies at line
  110): the handler created by a render reads \<open>mode\<close>, \<open>selectedVehicle\<close> and
  \<open>routePoints\<close> as they were in that render, whatever the state is when it runs.
\<close>

record HandlerClosure =
  c_mode :: Mode
  c_selectedVehicle :: VehicleType
  c_routePoints :: "Coordinates list"

definition renderClosure :: "AppState \<Rightarrow> HandlerClosure" where
  "renderClosure s =
     \<lparr>c_mode = mode s, c_selectedVehicle = selectedVehicle s, c_routePoints = routePoints s\<rparr>"

text \<open>
  \<open>handleLocationSelect\<close>, run on the state \<open>s\<close> by the handler that captured
  \<open>closure\<close>.  \<open>now\<close> is \<open>Date.now()\<close>.  The cap test and the new waypoint list read
  the captured \<open>routePoints\<close>; \<open>setError\<close> and \<open>setRoutePoints\<close> write the state, and
  \<open>setMarkers\<close>, a functional update, appends to the markers of the state.  The explore
  branch (lines 42 to 89: the asynchronous analysis of one location) is a parameter; the
  route branch is modelled in full.
\<close>

definition handleLocationSelect ::
  "(HandlerClosure \<Rightarrow> AppState \<Rightarrow> Coordinates \<Rightarrow> AppState) \<Rightarrow> nat \<Rightarrow> HandlerClosure
     \<Rightarrow> AppState \<Rightarrow> Coordinates \<Rightarrow> AppState" where
  "handleLocationSelect exploreBranch now closure s coords =
     (let s1 = s\<lparr>error := None\<rparr> in
      if c_mode closure = Explore then exploreBranch closure s1 coords
      else if length (c_routePoints closure) \<ge> 10 then
        s1\<lparr>error := Some ''Max 10 waypoints allowed.''\<rparr>
      else
        (let updatedPoints = c_routePoints closure @ [coords];
             newMarker = \<lparr>m_id = ''route-'' @ showNat now,
                          m_position = coords,
                          m_name = ''Stop '' @ showNat (length updatedPoints),
                          m_type = RoutePoint,
                          m_index = Some (length updatedPoints)\<rparr>
         in s1\<lparr>routePoints := updatedPoints, markers := markers s1 @ [newMarker]\<rparr>))"

text \<open>
  \<open>handleSearch\<close>, started on the state \<open>s\<close>.  It awaits \<open>geocodeStreet\<close>, whose result
  is \<open>geocoded\<close> (that function catches its own errors and yields null), and then calls
  the \<open>handleLocationSelect\<close> of the render in which the search was started.  \<open>during\<close>
  is what other handlers do to the state while the geocoder is awaited.
\<close>

definition handleSearch ::
  "(HandlerClosure \<Rightarrow> AppState \<Rightarrow> Coordinates \<Rightarrow> AppState) \<Rightarrow> nat \<Rightarrow> Coordinates option
     \<Rightarrow> (AppState \<Rightarrow> AppState) \<Rightarrow> AppState \<Rightarrow> AppState" where
  "handleSearch exploreBranch now geocoded during s =
     (let closure = renderClosure s;
          s1 = during (s\<lparr>loading := True, error := None\<rparr>)
      in case geocoded of
           Some coords \<Rightarrow> handleLocationSelect exploreBranch now closure s1 coords
         | None \<Rightarrow> s1\<lparr>error := Some ''Location not found in Cologne.'', loading := False\<rparr>)"

definition handleClearRoute :: "AppState \<Rightarrow> AppState" where
  "handleClearRoute s =
     s\<lparr>routePoints := [], routeCoordinates := [], routeStreetNames := [],
       routeAnalysis := None, liveTraffic := None, markers := []\<rparr>"

definition handleModeSwitch :: "Mode \<Rightarrow> AppState \<Rightarrow> AppState" where
  "handleModeSwitch newMode s =
     (let s1 = s\<lparr>mode := newMode, error := None, highlightedSegments := []\<rparr> in
      if newMode = Explore then s1\<lparr>routePoints := [], routeCoordinates := [], markers := []\<rparr>
      else s1\<lparr>analysis := None, liveTraffic := None, markers := []\<rparr>)"

section \<open>Route animation \<open>AnimatedRouteMarker\<close> (MapComponent.tsx)\<close>




























section \<open>Concrete inputs for the worked examples\<close>

text \<open>An operation that is rejected with HTTP status 429 at every invocation.\<close>

definition always429 :: "nat \<Rightarrow> ErrorObject + nat" where
  "always429 k = Inl \<lparr>err_status = Some 429, err_code = None, err_message = None\<rparr>"

text \<open>A narrow residential street as OSM reports it.\<close>

definition sampleOsm :: OsmStreetDetails where
  "sampleOsm = \<lparr>osm_name = ''Severinstrasse'', osm_type = ''residential'',
     osm_width = Some ''2.8'', osm_lanes = Some ''1'', osm_maxspeed = None, osm_surface = None\<rparr>"

text \<open>
  A well-formed generated analysis that ignores the width instruction: it declares the
  street suitable.
\<close>

definition sampleGenerated :: GeneratedAnalysis where
  "sampleGenerated = \<lparr>g_streetName = ''Severinstrasse'', g_isTruckSuitable = True,
     g_restrictionReason = None, g_maxWeight = None, g_streetWidth = Some ''approx. 4m'',
     g_lanes = Some ''2'', g_congestionScore = 6,
     g_congestionCurve = Some [1,1,2,6,9,7,5,8,9,6,3,2],
     g_rushHourTimes = [''07:30 - 09:00''], g_description = ''Narrow street.'',
     g_alternativeRoutes = None\<rparr>"

text \<open>Variants: a curve with a value above 10, a curve of the wrong length, an empty width.\<close>

definition overRangeGenerated :: GeneratedAnalysis where
  "overRangeGenerated = sampleGenerated\<lparr>g_congestionCurve := Some [1,1,2,6,9,7,5,8,12,6,3,2]\<rparr>"

definition shortGenerated :: GeneratedAnalysis where
  "shortGenerated = sampleGenerated\<lparr>g_congestionCurve := Some [1,2,3]\<rparr>"

definition emptyWidthGenerated :: GeneratedAnalysis where
  "emptyWidthGenerated = sampleGenerated\<lparr>g_streetWidth := Some []\<rparr>"

text \<open>
  A generative service that answers every invocation with the given text, one that
  rejects every invocation with the given error, and a parser that yields the given
  object.
\<close>

definition respondsWith ::
  "string \<Rightarrow> StreetPrompt \<Rightarrow> nat \<Rightarrow> ErrorObject + GenerateContentResponse" where
  "respondsWith t prompt k = Inr \<lparr>resp_text = Some t\<rparr>"

definition rejectsWith ::
  "ErrorObject \<Rightarrow> StreetPrompt \<Rightarrow> nat \<Rightarrow> ErrorObject + GenerateContentResponse" where
  "rejectsWith e prompt k = Inl e"

definition parsesTo :: "GeneratedAnalysis \<Rightarrow> string \<Rightarrow> ErrorObject + GeneratedAnalysis" where
  "parsesTo data t = Inr data"

definition error429 :: ErrorObject where
  "error429 = \<lparr>err_status = Some 429, err_code = None, err_message = None\<rparr>"

definition error500 :: ErrorObject where
  "error500 = \<lparr>err_status = Some 500, err_code = None, err_message = Some ''Internal error''\<rparr>"

text \<open>Two waypoints in Cologne, and a routing backend that answers that there is no route.\<close>

definition heumarkt :: Coordinates where
  "heumarkt = \<lparr>lat = 50.9366, lng = 6.9620\<rparr>"

definition severinstrasse :: Coordinates where
  "severinstrasse = \<lparr>lat = 50.9298, lng = 6.9587\<rparr>"

definition noRouteBackend :: "(real \<times> real) list \<Rightarrow> ErrorObject + HttpResponse" where
  "noRouteBackend request =
     Inr \<lparr>http_ok = True, http_statusText = ''OK'',
          http_json = Inr \<lparr>osrm_code = ''NoRoute'', osrm_routes = None\<rparr>\<rparr>"

text \<open>The same backend answering with status 400, as OSRM does when it finds no route.\<close>

definition badRequestBackend :: "(real \<times> real) list \<Rightarrow> ErrorObject + HttpResponse" where
  "badRequestBackend request =
     Inr \<lparr>http_ok = False, http_statusText = ''Bad Request'',
          http_json = Inr \<lparr>osrm_code = ''NoRoute'', osrm_routes = None\<rparr>\<rparr>"

text \<open>
  Session states: an empty session in route mode, one with nine and one with ten
  waypoints, and one that holds a computed and analysed route.
\<close>

definition emptyRouteSession :: AppState where
  "emptyRouteSession =
     \<lparr>selectedVehicle = LKW_HEAVY, mode = Route, analysis = None, highlightedSegments = [],
      isHighlightSuitable = True, routePoints = [], routeCoordinates = [],
      routeAnalysis = None, routeStreetNames = [], loading = False, liveTraffic = None,
      weather = None, markers = [], error = None\<rparr>"

definition nineRouteSession :: AppState where
  "nineRouteSession = emptyRouteSession\<lparr>routePoints := replicate 9 heumarkt\<rparr>"

definition fullRouteSession :: AppState where
  "fullRouteSession = emptyRouteSession\<lparr>routePoints := replicate 10 heumarkt\<rparr>"

definition plannedRouteSession :: AppState where
  "plannedRouteSession =
     emptyRouteSession
       \<lparr>routePoints := [heumarkt, severinstrasse],
        routeCoordinates := [(50.9366, 6.9620), (50.9298, 6.9587)],
        routeAnalysis := Some \<lparr>suitabilityScore = 40, isRouteSuitable = False,
          majorWarnings = [''Narrow street''], trafficPrediction = ''Heavy'',
          problematicStreets = [''Severinstrasse''], estimatedDurationAdjustment = ''+15 mins''\<rparr>,
        routeStreetNames := [''Heumarkt'', ''Severinstrasse'']\<rparr>"

text \<open>
  A map click handled at once: the handler of the current render selects a location.
  The explore branch plays no part in route mode and is left empty.
\<close>

definition clickAt :: "Coordinates \<Rightarrow> AppState \<Rightarrow> AppState" where
  "clickAt coords s = handleLocationSelect (\<lambda>c s' p. s') 1700000000000 (renderClosure s) s coords"










section \<open>The retry wrapper: back-off schedule and propagation\<close>

lemma backoff_step:
  "a < n \<Longrightarrow> backoff b a n = [Attempt a, Wait (b * 2 ^ a)] @ backoff b (Suc a) n"
  by (simp add: backoff_def upt_conv_Cons)

lemma backoff_empty: "backoff b a a = []"
  by (simp add: backoff_def)

lemma attemptsMade_append: "attemptsMade (xs @ ys) = attemptsMade xs + attemptsMade ys"
  by (induction xs rule: attemptsMade.induct) simp_all

lemma attemptsMade_backoff: "attemptsMade (backoff b a n) = n - a"
proof (induction "n - a" arbitrary: a)
  case 0
  then show ?case by (simp add: backoff_def)
next
  case (Suc k)
  then have "a < n" and "k = n - Suc a" by simp_all
  then show ?case using Suc.hyps(1)[of "Suc a"] by (simp add: backoff_step)
qed

text \<open>
  The loop entered at \<open>attempt = a\<close> stops at some attempt \<open>n\<close>: every attempt before
  \<open>n\<close> was a rate-limited failure followed by its delay, and the outcome of attempt
  \<open>n\<close> is the result.
\<close>

lemma retryLoop_spec:
  "a \<le> m \<Longrightarrow>
   \<exists>n. a \<le> n \<and> n \<le> m \<and>
       (\<forall>i. a \<le> i \<and> i < n \<longrightarrow> (\<exists>e. operation i = Inl e \<and> isRateLimit e)) \<and>
       (\<forall>e. operation n = Inl e \<and> isRateLimit e \<longrightarrow> n = m) \<and>
       retryLoop operation m b a le tr =
         (rethrow (operation n), tr @ backoff b a n @ [Attempt n])"
proof (induction operation m b a le tr rule: retryLoop.induct)
  case (1 operation maxRetries baseDelay attempt lastError trace)
  show ?case
  proof (cases "operation attempt")
    case (Inr v)
    then show ?thesis using "1.prems"
      by (intro exI[of _ attempt]) (auto simp add: backoff_empty rethrow_def)
  next
    case (Inl e)
    show ?thesis
    proof (cases "isRateLimit e \<and> attempt < maxRetries")
      case False
      then show ?thesis using "1.prems" Inl
        by (intro exI[of _ attempt]) (auto simp add: backoff_empty rethrow_def)
    next
      case True
      then have le: "attempt + 1 \<le> maxRetries" by simp
      from "1.IH"[OF "1.prems" Inl True le]
      obtain n where n: "attempt + 1 \<le> n" "n \<le> maxRetries"
        "\<forall>i. attempt + 1 \<le> i \<and> i < n \<longrightarrow> (\<exists>e. operation i = Inl e \<and> isRateLimit e)"
        "\<forall>e. operation n = Inl e \<and> isRateLimit e \<longrightarrow> n = maxRetries"
        "retryLoop operation maxRetries baseDelay (attempt + 1) (Thrown e)
           (trace @ [Attempt attempt, Wait (baseDelay * 2 ^ attempt)]) =
         (rethrow (operation n),
          (trace @ [Attempt attempt, Wait (baseDelay * 2 ^ attempt)])
            @ backoff baseDelay (attempt + 1) n @ [Attempt n])"
        by blast
      have "\<forall>i. attempt \<le> i \<and> i < n \<longrightarrow> (\<exists>e. operation i = Inl e \<and> isRateLimit e)"
      proof (intro allI impI)
        fix i assume "attempt \<le> i \<and> i < n"
        then consider "i = attempt" | "attempt + 1 \<le> i \<and> i < n" by linarith
        then show "\<exists>e. operation i = Inl e \<and> isRateLimit e"
          using Inl True n(3) by cases auto
      qed
      moreover have "retryLoop operation maxRetries baseDelay attempt lastError trace =
          (rethrow (operation n), trace @ backoff baseDelay attempt n @ [Attempt n])"
        using n(1) n(5) Inl True "1.prems" backoff_step[of attempt n baseDelay]
        by simp
      ultimately show ?thesis using n(1,2,4)
        by (intro exI[of _ n]) simp
    qed
  qed
qed

text \<open>
  The statement \<open>throw lastError\<close> after the loop is never reached with an undefined
  \<open>lastError\<close>: what the wrapper throws is always an error object of the operation.
\<close>

lemma retryGeminiCall_defined: "fst (retryGeminiCall operation m b) \<noteq> Inl Undefined"
proof -
  from retryLoop_spec[of 0 m operation b Undefined "[]"]
  obtain n where "retryLoop operation m b 0 Undefined [] =
       (rethrow (operation n), [] @ backoff b 0 n @ [Attempt n])"
    by blast
  then show ?thesis
    by (simp add: retryGeminiCall_def rethrow_def split: sum.splits)
qed

text \<open>
  Claim C3.  A run of \<open>retryGeminiCall operation maxRetries baseDelay\<close> makes the
  attempts \<open>0, \<dots>, n\<close> for some \<open>n \<le> maxRetries\<close>, hence at most \<open>maxRetries + 1\<close>
  attempts.  Each attempt \<open>i < n\<close> failed with a rate-limit error and is followed in the
  trace by a wait of \<open>baseDelay * 2 ^ i\<close> and then by attempt \<open>i + 1\<close>.  Attempt \<open>n\<close> is
  the last event of the trace and its outcome is the outcome of the run: a value, a
  failure that is not a rate limit (so such a failure is passed on at once, with no
  further attempt), or a rate-limit failure, which can only be final when
  \<open>n = maxRetries\<close>, the budget being exhausted; it is then the error thrown.
\<close>

theorem retryGeminiCall_backoff:
  "\<exists>n. n \<le> maxRetries \<and>
       (\<forall>i<n. \<exists>e. operation i = Inl e \<and> isRateLimit e) \<and>
       (\<forall>e. operation n = Inl e \<and> isRateLimit e \<longrightarrow> n = maxRetries) \<and>
       fst (retryGeminiCall operation maxRetries baseDelay) =
         (case operation n of Inl e \<Rightarrow> Inl (Thrown e) | Inr v \<Rightarrow> Inr v) \<and>
       snd (retryGeminiCall operation maxRetries baseDelay) =
         concat (map (\<lambda>i. [Attempt i, Wait (baseDelay * 2 ^ i)]) [0..<n]) @ [Attempt n] \<and>
       attemptsMade (snd (retryGeminiCall operation maxRetries baseDelay)) = n + 1"
proof -
  from retryLoop_spec[of 0 maxRetries operation baseDelay Undefined "[]"]
  obtain n where n: "n \<le> maxRetries"
    "\<forall>i. 0 \<le> i \<and> i < n \<longrightarrow> (\<exists>e. operation i = Inl e \<and> isRateLimit e)"
    "\<forall>e. operation n = Inl e \<and> isRateLimit e \<longrightarrow> n = maxRetries"
    "retryLoop operation maxRetries baseDelay 0 Undefined [] =
       (rethrow (operation n), [] @ backoff baseDelay 0 n @ [Attempt n])"
    by blast
  have "attemptsMade (backoff baseDelay 0 n @ [Attempt n]) = n + 1"
    by (simp add: attemptsMade_append attemptsMade_backoff)
  with n show ?thesis
    by (intro exI[of _ n]) (simp add: retryGeminiCall_def rethrow_def backoff_def)
qed

text \<open>
  The weather policy (2 retries, 2000 ms) against an operation that is rate-limited every
  time: three attempts, delays of 2000 and 4000 ms, and the last error is thrown.
\<close>

theorem retryGeminiCall_backoff_witness:
  "fst (retryGeminiCall always429 2 2000) =
     Inl (Thrown \<lparr>err_status = Some 429, err_code = None, err_message = None\<rparr>) \<and>
   snd (retryGeminiCall always429 2 2000) =
     [Attempt 0, Wait 2000, Attempt 1, Wait 4000, Attempt 2] \<and>
   attemptsMade (snd (retryGeminiCall always429 2 2000)) = 3"
proof -
  from retryGeminiCall_backoff[of 2 always429 2000]
  obtain n where n: "n \<le> 2"
    "\<forall>e. always429 n = Inl e \<and> isRateLimit e \<longrightarrow> n = 2"
    "fst (retryGeminiCall always429 2 2000) =
       (case always429 n of Inl e \<Rightarrow> Inl (Thrown e) | Inr v \<Rightarrow> Inr v)"
    "snd (retryGeminiCall always429 2 2000) =
       concat (map (\<lambda>i. [Attempt i, Wait (2000 * 2 ^ i)]) [0..<n]) @ [Attempt n]"
    "attemptsMade (snd (retryGeminiCall always429 2 2000)) = n + 1"
    by blast
  have "isRateLimit \<lparr>err_status = Some 429, err_code = None, err_message = None\<rparr>"
    by (simp add: isRateLimit_def)
  with n(2) have "n = 2" by (simp add: always429_def)
  then have "[0..<n] = [0, 1]" by (simp add: upt_rec)
  with n \<open>n = 2\<close> show ?thesis by (simp add: always429_def)
qed

section \<open>Street analysis: the three result paths\<close>

lemma requestAnalysis_defined:
  "requestAnalysis generateContent jsonParse lt lg v osmData \<noteq> Inl Undefined"
  using retryGeminiCall_defined[of "generateContent (streetPrompt lt lg v osmData)" 4 2500]
  by (auto simp add: requestAnalysis_def split: sum.splits)

text \<open>
  Every call ends in exactly one of three ways: the merged object, the rate-limited
  fallback or the failure fallback.  In particular it never throws.
\<close>

lemma analyze_cases:
  "(\<exists>data. requestAnalysis g p lt lg v osm = Inr data \<and>
       analyzeStreetConditions g p now lt lg v osm = Inr (mergeAnalysis data osm now)) \<or>
   (\<exists>e. requestAnalysis g p lt lg v osm = Inl (Thrown e) \<and> isRateLimit e \<and>
       analyzeStreetConditions g p now lt lg v osm = Inr (rateLimitedFallback osm now)) \<or>
   (\<exists>e. requestAnalysis g p lt lg v osm = Inl (Thrown e) \<and> \<not> isRateLimit e \<and>
       analyzeStreetConditions g p now lt lg v osm = Inr (failedFallback osm now))"
proof (cases "requestAnalysis g p lt lg v osm")
  case (Inr data)
  then show ?thesis by (simp add: analyzeStreetConditions_def)
next
  case (Inl t)
  with requestAnalysis_defined[of g p lt lg v osm] obtain e where "t = Thrown e"
    by (cases t) auto
  with Inl show ?thesis by (simp add: analyzeStreetConditions_def)
qed

text \<open>The example services evaluated.\<close>

lemma retry_respondsWith:
  "retryGeminiCall (respondsWith t prompt) m b = (Inr \<lparr>resp_text = Some t\<rparr>, [Attempt 0])"
  by (simp add: retryGeminiCall_def respondsWith_def)

lemma request_respondsWith:
  "t \<noteq> [] \<Longrightarrow> requestAnalysis (respondsWith t) (parsesTo data) lt lg v osm = Inr data"
  by (simp add: requestAnalysis_def retry_respondsWith truthy_def parsesTo_def)

lemma isRateLimit_error429: "isRateLimit error429"
  by (simp add: isRateLimit_def error429_def)

lemma not_isRateLimit_error500: "\<not> isRateLimit error500"
  by (simp add: isRateLimit_def error500_def messageIncludes_def)

lemma retry_rejects_429:
  "fst (retryGeminiCall (rejectsWith error429 prompt) 4 2500) = Inl (Thrown error429)"
  by (simp add: retryGeminiCall_def rejectsWith_def isRateLimit_error429)

lemma retry_rejects_500:
  "fst (retryGeminiCall (rejectsWith error500 prompt) 4 2500) = Inl (Thrown error500)"
  by (simp add: retryGeminiCall_def rejectsWith_def not_isRateLimit_error500)

subsection \<open>The congestion curve\<close>

text \<open>
  Claim C1 as stated fails.  The merge checks the length of the generated curve and
  nothing else: a generated curve of twelve entries is returned as it is, so an entry
  above 10 (here 12, at index 8) reaches the result.
\<close>

theorem analyzeStreet_curve_range_counterexample:
  "analyzeStreetConditions (respondsWith ''{...}'') (parsesTo overRangeGenerated) ''12:00:00''
      50.9298 6.9587 LKW_HEAVY (Some sampleOsm)
     = Inr (mergeAnalysis overRangeGenerated (Some sampleOsm) ''12:00:00'') \<and>
   congestionCurve (mergeAnalysis overRangeGenerated (Some sampleOsm) ''12:00:00'')
     = [1,1,2,6,9,7,5,8,12,6,3,2] \<and>
   \<not> (\<forall>x \<in> set (congestionCurve (mergeAnalysis overRangeGenerated (Some sampleOsm) ''12:00:00'')).
         0 \<le> x \<and> x \<le> 10)"
  by (simp add: analyzeStreetConditions_def request_respondsWith mergeAnalysis_def
      overRangeGenerated_def sampleGenerated_def)

text \<open>
  Claim C1, amended.  Every call of \<open>analyzeStreetConditions\<close> returns a result (it does
  not throw) whose \<open>congestionCurve\<close> has exactly 12 entries.  Either that curve is the
  one the generator produced, passed through unchanged, or every entry lies in
  \<open>[0,10]\<close>; the latter covers both fallbacks and the substituted default curve.
\<close>

theorem analyzeStreet_curve:
  "\<exists>r. analyzeStreetConditions g p now lt lg v osm = Inr r \<and>
       length (congestionCurve r) = 12 \<and>
       ((\<exists>data. requestAnalysis g p lt lg v osm = Inr data \<and>
                 g_congestionCurve data = Some (congestionCurve r)) \<or>
        (\<forall>x \<in> set (congestionCurve r). 0 \<le> x \<and> x \<le> 10))"
  using analyze_cases[of g p lt lg v osm now]
  by (auto simp add: mergeAnalysis_def rateLimitedFallback_def failedFallback_def
      split: option.splits)

text \<open>
  A generator that returns a curve of three entries: the result carries a curve of
  twelve entries, all within range.
\<close>

theorem analyzeStreet_curve_witness:
  "\<exists>r. analyzeStreetConditions (respondsWith ''{...}'') (parsesTo shortGenerated) ''12:00:00''
          50.9298 6.9587 LKW_HEAVY (Some sampleOsm) = Inr r \<and>
       g_congestionCurve shortGenerated = Some [1,2,3] \<and>
       length (congestionCurve r) = 12 \<and>
       list_all (\<lambda>x. 0 \<le> x \<and> x \<le> 10) (congestionCurve r)"
proof -
  from analyzeStreet_curve[of "respondsWith ''{...}''" "parsesTo shortGenerated" "''12:00:00''"
      "50.9298" "6.9587" LKW_HEAVY "Some sampleOsm"]
  obtain r where r:
    "analyzeStreetConditions (respondsWith ''{...}'') (parsesTo shortGenerated) ''12:00:00''
      50.9298 6.9587 LKW_HEAVY (Some sampleOsm) = Inr r"
    "length (congestionCurve r) = 12"
    "(\<exists>data. requestAnalysis (respondsWith ''{...}'') (parsesTo shortGenerated)
                50.9298 6.9587 LKW_HEAVY (Some sampleOsm) = Inr data \<and>
              g_congestionCurve data = Some (congestionCurve r)) \<or>
     (\<forall>x \<in> set (congestionCurve r). 0 \<le> x \<and> x \<le> 10)"
    by blast
  have short: "g_congestionCurve shortGenerated = Some [1,2,3]"
    by (simp add: shortGenerated_def sampleGenerated_def)
  have "\<not> (\<exists>data. requestAnalysis (respondsWith ''{...}'') (parsesTo shortGenerated)
                50.9298 6.9587 LKW_HEAVY (Some sampleOsm) = Inr data \<and>
              g_congestionCurve data = Some (congestionCurve r))"
  proof
    assume "\<exists>data. requestAnalysis (respondsWith ''{...}'') (parsesTo shortGenerated)
                50.9298 6.9587 LKW_HEAVY (Some sampleOsm) = Inr data \<and>
              g_congestionCurve data = Some (congestionCurve r)"
    then have "g_congestionCurve shortGenerated = Some (congestionCurve r)"
      by (simp add: request_respondsWith)
    with short have "congestionCurve r = [1,2,3]" by simp
    then have "length (congestionCurve r) = 3" by simp
    with r(2) show False by simp
  qed
  with r(3) have "\<forall>x \<in> set (congestionCurve r). 0 \<le> x \<and> x \<le> 10" by blast
  then have "list_all (\<lambda>x. 0 \<le> x \<and> x \<le> 10) (congestionCurve r)"
    by (simp add: list_all_iff)
  with r(1,2) short show ?thesis by blast
qed

subsection \<open>The two fallbacks\<close>

text \<open>
  Claim C2.  When the generative call under the retry wrapper ends in a failure, the
  thrown value is an error object \<open>e\<close> and \<open>analyzeStreetConditions\<close> returns a result
  instead of throwing.  If \<open>e\<close> is classified as a rate limit the result has
  \<open>isTruckSuitable = true\<close> and the curve \<open>[2,2,2,5,5,5,5,5,5,5,2,2]\<close>; otherwise it has
  \<open>isTruckSuitable = false\<close> and the curve of twelve zeros.  A rate-limited fallback is
  never equal to a failure fallback, whatever the OSM data and the time.
\<close>

theorem analyzeStreet_fallbacks:
  "fst (retryGeminiCall (generateContent (streetPrompt lt lg v osm)) 4 2500) = Inl t \<Longrightarrow>
   \<exists>e r. t = Thrown e \<and>
     analyzeStreetConditions generateContent jsonParse now lt lg v osm = Inr r \<and>
     (if isRateLimit e
      then isTruckSuitable r \<and> congestionCurve r = [2,2,2,5,5,5,5,5,5,5,2,2]
      else \<not> isTruckSuitable r \<and> congestionCurve r = [0,0,0,0,0,0,0,0,0,0,0,0]) \<and>
     (\<forall>osm' now'. rateLimitedFallback osm now \<noteq> failedFallback osm' now')"
proof -
  assume a: "fst (retryGeminiCall (generateContent (streetPrompt lt lg v osm)) 4 2500) = Inl t"
  with retryGeminiCall_defined[of "generateContent (streetPrompt lt lg v osm)" 4 2500]
  obtain e where e: "t = Thrown e" by (cases t) auto
  with a have req: "requestAnalysis generateContent jsonParse lt lg v osm = Inl (Thrown e)"
    by (simp add: requestAnalysis_def)
  have "\<forall>osm' now'. rateLimitedFallback osm now \<noteq> failedFallback osm' now'"
    by (simp add: rateLimitedFallback_def failedFallback_def)
  with e req show ?thesis
    by (simp add: analyzeStreetConditions_def rateLimitedFallback_def failedFallback_def)
qed

text \<open>
  A service that answers 429 to all five attempts yields the degraded result; one that
  answers 500 yields the failed result at once.
\<close>

theorem analyzeStreet_fallbacks_witness:
  "fst (retryGeminiCall (rejectsWith error429
          (streetPrompt 50.9298 6.9587 LKW_HEAVY (Some sampleOsm))) 4 2500) = Inl (Thrown error429) \<and>
   isRateLimit error429 \<and>
   (\<exists>r. analyzeStreetConditions (rejectsWith error429) (parsesTo sampleGenerated) ''12:00:00''
           50.9298 6.9587 LKW_HEAVY (Some sampleOsm) = Inr r \<and>
        isTruckSuitable r \<and> congestionCurve r = [2,2,2,5,5,5,5,5,5,5,2,2]) \<and>
   fst (retryGeminiCall (rejectsWith error500
          (streetPrompt 50.9298 6.9587 LKW_HEAVY (Some sampleOsm))) 4 2500) = Inl (Thrown error500) \<and>
   \<not> isRateLimit error500 \<and>
   (\<exists>r. analyzeStreetConditions (rejectsWith error500) (parsesTo sampleGenerated) ''12:00:00''
           50.9298 6.9587 LKW_HEAVY (Some sampleOsm) = Inr r \<and>
        \<not> isTruckSuitable r \<and> congestionCurve r = [0,0,0,0,0,0,0,0,0,0,0,0])"
proof -
  have busy: "fst (retryGeminiCall (rejectsWith error429
      (streetPrompt 50.9298 6.9587 LKW_HEAVY (Some sampleOsm))) 4 2500) = Inl (Thrown error429)"
    by (rule retry_rejects_429)
  have down: "fst (retryGeminiCall (rejectsWith error500
      (streetPrompt 50.9298 6.9587 LKW_HEAVY (Some sampleOsm))) 4 2500) = Inl (Thrown error500)"
    by (rule retry_rejects_500)
  from analyzeStreet_fallbacks[where generateContent = "rejectsWith error429"
      and jsonParse = "parsesTo sampleGenerated" and now = "''12:00:00''", OF busy]
    analyzeStreet_fallbacks[where generateContent = "rejectsWith error500"
      and jsonParse = "parsesTo sampleGenerated" and now = "''12:00:00''", OF down]
    busy down isRateLimit_error429 not_isRateLimit_error500
  show ?thesis by auto
qed

subsection \<open>The merge\<close>

text \<open>
  Claim C4.  Whenever the generation succeeds with the object \<open>data\<close>, the result's
  \<open>isTruckSuitable\<close> is \<open>data\<close>'s, for every vehicle type and every OSM context: the
  merge never recomputes the verdict from the verified width.
\<close>

theorem analyzeStreet_keeps_verdict:
  "requestAnalysis generateContent jsonParse lt lg v osm = Inr data \<Longrightarrow>
   \<exists>r. analyzeStreetConditions generateContent jsonParse now lt lg v osm = Inr r \<and>
       isTruckSuitable r = g_isTruckSuitable data"
  by (simp add: analyzeStreetConditions_def mergeAnalysis_def)

text \<open>
  A verified width of 2.8 and the heavy vehicle class, with a generator that declares
  the street suitable: the result says suitable.
\<close>

theorem analyzeStreet_keeps_verdict_witness:
  "requestAnalysis (respondsWith ''{...}'') (parsesTo sampleGenerated)
      50.9298 6.9587 LKW_HEAVY (Some sampleOsm) = Inr sampleGenerated \<and>
   osm_width sampleOsm = Some ''2.8'' \<and>
   g_isTruckSuitable sampleGenerated \<and>
   (\<exists>r. analyzeStreetConditions (respondsWith ''{...}'') (parsesTo sampleGenerated) ''12:00:00''
           50.9298 6.9587 LKW_HEAVY (Some sampleOsm) = Inr r \<and>
        isTruckSuitable r)"
proof -
  have req: "requestAnalysis (respondsWith ''{...}'') (parsesTo sampleGenerated)
      50.9298 6.9587 LKW_HEAVY (Some sampleOsm) = Inr sampleGenerated"
    by (simp add: request_respondsWith)
  have "g_isTruckSuitable sampleGenerated" "osm_width sampleOsm = Some ''2.8''"
    by (simp_all add: sampleGenerated_def sampleOsm_def)
  with req analyzeStreet_keeps_verdict[where generateContent = "respondsWith ''{...}''"
      and jsonParse = "parsesTo sampleGenerated" and now = "''12:00:00''", OF req]
  show ?thesis
    by auto
qed

text \<open>
  Claim C5 as stated fails.  The merge tests the generated \<open>streetWidth\<close> for
  truthiness (\<open>||\<close>), so a generated empty string, although present, is replaced by the
  verified width.
\<close>

theorem analyzeStreet_merge_width_counterexample:
  "g_streetWidth emptyWidthGenerated = Some [] \<and>
   requestAnalysis (respondsWith ''{...}'') (parsesTo emptyWidthGenerated)
      50.9298 6.9587 LKW_HEAVY (Some sampleOsm) = Inr emptyWidthGenerated \<and>
   analyzeStreetConditions (respondsWith ''{...}'') (parsesTo emptyWidthGenerated) ''12:00:00''
      50.9298 6.9587 LKW_HEAVY (Some sampleOsm)
     = Inr (mergeAnalysis emptyWidthGenerated (Some sampleOsm) ''12:00:00'') \<and>
   streetWidth (mergeAnalysis emptyWidthGenerated (Some sampleOsm) ''12:00:00'') = Some ''2.8m'' \<and>
   streetWidth (mergeAnalysis emptyWidthGenerated (Some sampleOsm) ''12:00:00'')
     \<noteq> g_streetWidth emptyWidthGenerated"
  by (simp add: analyzeStreetConditions_def request_respondsWith mergeAnalysis_def
      emptyWidthGenerated_def sampleGenerated_def sampleOsm_def truthy_def osmWidthLabel_def)

text \<open>
  Claim C5, amended.  For a successful generation with a verified context:
  \<open>streetWidth\<close> is the generated value when that is a non-empty string; when the
  generator omits it or returns the empty string, it is the verified width followed by
  \<open>m\<close> if the context has a non-empty width, and absent otherwise.  \<open>lanes\<close> is the
  verified context's, whatever was generated.  A generated curve of length 12 is kept;
  when the generated curve is missing or of another length the result carries the default
  \<open>[2,2,3,7,9,6,5,8,9,5,3,2]\<close>.
\<close>

theorem analyzeStreet_merge:
  "requestAnalysis generateContent jsonParse lt lg v (Some osm) = Inr data \<Longrightarrow>
   \<exists>r. analyzeStreetConditions generateContent jsonParse now lt lg v (Some osm) = Inr r \<and>
     (\<forall>w. g_streetWidth data = Some w \<and> w \<noteq> [] \<longrightarrow> streetWidth r = Some w) \<and>
     (g_streetWidth data = None \<or> g_streetWidth data = Some [] \<longrightarrow>
        streetWidth r = (case osm_width osm of
                           Some w \<Rightarrow> if w \<noteq> [] then Some (w @ ''m'') else None
                         | None \<Rightarrow> None)) \<and>
     lanes r = osm_lanes osm \<and>
     (\<forall>c. g_congestionCurve data = Some c \<and> length c = 12 \<longrightarrow> congestionCurve r = c) \<and>
     ((\<forall>c. g_congestionCurve data = Some c \<longrightarrow> length c \<noteq> 12) \<longrightarrow>
        congestionCurve r = [2,2,3,7,9,6,5,8,9,5,3,2])"
  by (auto simp add: analyzeStreetConditions_def mergeAnalysis_def truthy_def osmWidthLabel_def
      osmLanes_def split: option.splits)

text \<open>
  The sample generation (width \<open>approx. 4m\<close>, two lanes, a curve of twelve entries)
  merged with the sample OSM data (one lane): the generated width and curve are kept and
  the lane count is OSM's.
\<close>

theorem analyzeStreet_merge_witness:
  "requestAnalysis (respondsWith ''{...}'') (parsesTo sampleGenerated)
      50.9298 6.9587 LKW_HEAVY (Some sampleOsm) = Inr sampleGenerated \<and>
   g_lanes sampleGenerated = Some ''2'' \<and>
   (\<exists>r. analyzeStreetConditions (respondsWith ''{...}'') (parsesTo sampleGenerated) ''12:00:00''
           50.9298 6.9587 LKW_HEAVY (Some sampleOsm) = Inr r \<and>
        streetWidth r = Some ''approx. 4m'' \<and>
        lanes r = Some ''1'' \<and>
        congestionCurve r = [1,1,2,6,9,7,5,8,9,6,3,2])"
proof -
  have req: "requestAnalysis (respondsWith ''{...}'') (parsesTo sampleGenerated)
      50.9298 6.9587 LKW_HEAVY (Some sampleOsm) = Inr sampleGenerated"
    by (simp add: request_respondsWith)
  have facts: "g_streetWidth sampleGenerated = Some ''approx. 4m''"
    "g_lanes sampleGenerated = Some ''2''"
    "g_congestionCurve sampleGenerated = Some [1,1,2,6,9,7,5,8,9,6,3,2]"
    "osm_lanes sampleOsm = Some ''1''"
    by (simp_all add: sampleGenerated_def sampleOsm_def)
  from analyzeStreet_merge[where generateContent = "respondsWith ''{...}''"
      and jsonParse = "parsesTo sampleGenerated" and now = "''12:00:00''", OF req] facts req
  show ?thesis
    by auto
qed


section \<open>Route computation: the failures\<close>

text \<open>
  Claim C6 does not hold as stated: a backend that reports no viable route does not
  always make \<open>calculateRoute\<close> throw ``No route found.''.  The status of the response
  is tested first (lines 448 to 450) and the body only afterwards (line 453).  Here the
  backend reports \<open>NoRoute\<close> with status 400, and the error thrown is
  ``Routing service error: Bad Request''.
\<close>

theorem calculateRoute_not_ok_counterexample:
  "2 \<le> length [heumarkt, severinstrasse] \<and>
   badRequestBackend (map (\<lambda>p. (lng p, lat p)) [heumarkt, severinstrasse]) =
     Inr \<lparr>http_ok = False, http_statusText = ''Bad Request'',
          http_json = Inr \<lparr>osrm_code = ''NoRoute'', osrm_routes = None\<rparr>\<rparr> \<and>
   fst (calculateRoute badRequestBackend [heumarkt, severinstrasse]) =
     Inl (Thrown (newError ''Routing service error: Bad Request'')) \<and>
   fst (calculateRoute badRequestBackend [heumarkt, severinstrasse]) \<noteq>
     Inl (Thrown (newError ''No route found.''))"
  by (simp add: calculateRoute_def badRequestBackend_def newError_def Let_def)

text \<open>
  Claim C6, amended.  With fewer than two waypoints \<open>calculateRoute\<close> throws the error
  ``At least two points are required for a route.'' (the spec's \<open>InvalidInput\<close>) and
  issues no request.  With at least two waypoints, when the backend answers with a
  success status and its answer has a code other than \<open>Ok\<close>, no \<open>routes\<close> or an empty
  \<open>routes\<close>, it throws the error ``No route found.'' (the spec's \<open>NoRouteFound\<close>).
  When the backend answers with another status, it throws ``Routing service error: ''
  followed by the status text, whatever the body reports.  In all three cases the
  outcome is the thrown error, not a route.
\<close>

theorem calculateRoute_failures:
  "(length points < 2 \<longrightarrow>
      calculateRoute fetch points =
        (Inl (Thrown (newError ''At least two points are required for a route.'')), [])) \<and>
   (2 \<le> length points \<and> fetch (map (\<lambda>p. (lng p, lat p)) points) = Inr response \<and>
    http_ok response \<and> http_json response = Inr data \<and>
    (osrm_code data \<noteq> ''Ok'' \<or> osrm_routes data = None \<or> osrm_routes data = Some []) \<longrightarrow>
      fst (calculateRoute fetch points) = Inl (Thrown (newError ''No route found.''))) \<and>
   (2 \<le> length points \<and> fetch (map (\<lambda>p. (lng p, lat p)) points) = Inr response \<and>
    \<not> http_ok response \<longrightarrow>
      fst (calculateRoute fetch points) =
        Inl (Thrown (newError (''Routing service error: '' @ http_statusText response))))"
  by (auto simp add: calculateRoute_def Let_def)

text \<open>
  One waypoint; two waypoints against a backend that reports \<open>NoRoute\<close> with status
  200; and two waypoints against a backend that reports it with status 400.
\<close>

theorem calculateRoute_failures_witness:
  "length [heumarkt] < 2 \<and>
   calculateRoute noRouteBackend [heumarkt] =
     (Inl (Thrown (newError ''At least two points are required for a route.'')), []) \<and>
   2 \<le> length [heumarkt, severinstrasse] \<and>
   fst (calculateRoute noRouteBackend [heumarkt, severinstrasse]) =
     Inl (Thrown (newError ''No route found.'')) \<and>
   fst (calculateRoute badRequestBackend [heumarkt, severinstrasse]) =
     Inl (Thrown (newError ''Routing service error: Bad Request''))"
  using calculateRoute_failures[of "[heumarkt]" noRouteBackend]
    calculateRoute_failures[of "[heumarkt, severinstrasse]" noRouteBackend
      "\<lparr>http_ok = True, http_statusText = ''OK'',
          http_json = Inr \<lparr>osrm_code = ''NoRoute'', osrm_routes = None\<rparr>\<rparr>"
      "\<lparr>osrm_code = ''NoRoute'', osrm_routes = None\<rparr>"]
    calculateRoute_failures[of "[heumarkt, severinstrasse]" badRequestBackend
      "\<lparr>http_ok = False, http_statusText = ''Bad Request'',
          http_json = Inr \<lparr>osrm_code = ''NoRoute'', osrm_routes = None\<rparr>\<rparr>"
      "\<lparr>osrm_code = ''NoRoute'', osrm_routes = None\<rparr>"]
  by (simp add: noRouteBackend_def badRequestBackend_def)

section \<open>Session handlers\<close>

text \<open>
  The handler of the current render behaves as one expects of the waypoint list.  In
  route mode, a selection made when ten (or more) waypoints are held changes nothing in
  the session but the error message, which becomes ``Max 10 waypoints allowed.''.  With
  fewer than ten waypoints the selected coordinate is appended to the waypoints, one
  marker at that coordinate is appended to the markers, and no error message is set.
\<close>

lemma handleLocationSelect_current:
  "mode s = Route \<Longrightarrow>
   (10 \<le> length (routePoints s) \<longrightarrow>
      handleLocationSelect exploreBranch now (renderClosure s) s coords =
        s\<lparr>error := Some ''Max 10 waypoints allowed.''\<rparr>) \<and>
   (length (routePoints s) < 10 \<longrightarrow>
      routePoints (handleLocationSelect exploreBranch now (renderClosure s) s coords) =
        routePoints s @ [coords] \<and>
      (\<exists>m. markers (handleLocationSelect exploreBranch now (renderClosure s) s coords) =
             markers s @ [m] \<and> m_position m = coords) \<and>
      error (handleLocationSelect exploreBranch now (renderClosure s) s coords) = None)"
  by (simp add: handleLocationSelect_def renderClosure_def Let_def)

lemma clickAt_full:
  "clickAt severinstrasse fullRouteSession =
     fullRouteSession\<lparr>error := Some ''Max 10 waypoints allowed.''\<rparr>"
  by (simp add: clickAt_def handleLocationSelect_def renderClosure_def fullRouteSession_def
      emptyRouteSession_def Let_def)

text \<open>
  Claim C7 does not hold of the handler that \<open>handleSearch\<close> calls.  That handler is the
  one of the render in which the search was started, and it reads the waypoint list of
  that render (the closure of \<open>useCallback\<close>, lines 92, 98 and 110), while
  \<open>setMarkers\<close> next to it appends to the current markers.  A map click that is handled
  while the geocoder is awaited is therefore lost from the waypoints.

  A search is started in an empty route session, the map is clicked at Heumarkt while
  the geocoder is awaited, and the search resolves to Severinstrasse: the waypoints are
  Severinstrasse alone, although two markers are shown.  And a search is started with
  nine waypoints, the map is clicked at Severinstrasse (the tenth waypoint), and the
  search resolves to Heumarkt: the selection is made with ten waypoints held, it is not
  rejected, no message is set, and the tenth waypoint is replaced.
\<close>

theorem handleSearch_stale_waypoints:
  "mode emptyRouteSession = Route \<and>
   routePoints (clickAt heumarkt (emptyRouteSession\<lparr>loading := True, error := None\<rparr>)) =
     [heumarkt] \<and>
   routePoints (handleSearch (\<lambda>c s p. s) 1700000000000 (Some severinstrasse)
                  (clickAt heumarkt) emptyRouteSession) = [severinstrasse] \<and>
   map m_position (markers (handleSearch (\<lambda>c s p. s) 1700000000000 (Some severinstrasse)
                  (clickAt heumarkt) emptyRouteSession)) = [heumarkt, severinstrasse] \<and>
   mode nineRouteSession = Route \<and>
   routePoints (clickAt severinstrasse (nineRouteSession\<lparr>loading := True, error := None\<rparr>)) =
     replicate 9 heumarkt @ [severinstrasse] \<and>
   length (routePoints (clickAt severinstrasse
                  (nineRouteSession\<lparr>loading := True, error := None\<rparr>))) = 10 \<and>
   routePoints (handleSearch (\<lambda>c s p. s) 1700000000000 (Some heumarkt)
                  (clickAt severinstrasse) nineRouteSession) =
     replicate 9 heumarkt @ [heumarkt] \<and>
   error (handleSearch (\<lambda>c s p. s) 1700000000000 (Some heumarkt)
                  (clickAt severinstrasse) nineRouteSession) = None"
  by (simp add: handleSearch_def clickAt_def handleLocationSelect_def renderClosure_def
      emptyRouteSession_def nineRouteSession_def Let_def)

text \<open>
  Claim C8 does not hold of \<open>handleModeSwitch\<close>.  Switching to explore mode from a
  session that holds an analysed route empties the waypoints and the polyline but keeps
  the route's street names and its analysis, which \<open>handleClearRoute\<close> both clears.
\<close>

theorem handleModeSwitch_keeps_route_results:
  "routePoints (handleModeSwitch Explore plannedRouteSession) = [] \<and>
   routeCoordinates (handleModeSwitch Explore plannedRouteSession) = [] \<and>
   routeStreetNames (handleModeSwitch Explore plannedRouteSession) =
     [''Heumarkt'', ''Severinstrasse''] \<and>
   routeAnalysis (handleModeSwitch Explore plannedRouteSession) =
     routeAnalysis plannedRouteSession \<and>
   routeAnalysis plannedRouteSession \<noteq> None \<and>
   routeStreetNames (handleClearRoute plannedRouteSession) = [] \<and>
   routeAnalysis (handleClearRoute plannedRouteSession) = None"
  by (simp add: handleModeSwitch_def handleClearRoute_def plannedRouteSession_def
      emptyRouteSession_def Let_def)

section \<open>Route animation: progress, search and frame\<close>

subsection \<open>The remainder and the progress fraction\<close>





subsection \<open>The search and the cumulative distances\<close>










subsection \<open>The frame\<close>















subsection \<open>Progress, vertices and the first frame\<close>






end
